theory Spec2Isabelle
  imports Main "HOL-Library.Sublist"
begin

section \<open>Data model of \<open>src/components/ClockApp.tsx\<close>\<close>

text \<open>
  The source file holds two variants of the component \<open>ClockApp\<close>: the card clock
  (lines 1-464) and the glow clock with the location badge (lines 465-1022).  The world
  clock registry, the catalog of time zones and the visibility effect are written the
  same way in both; the theme record, the presets, the initial registry and the
  \<open>hour12\<close> option of the formatter differ, and the second variant alone has
  \<open>fetchLocation\<close>.  Definitions of the second variant carry the suffix \<open>_v2\<close>.
\<close>

subsection \<open>Catalog entries and world clocks\<close>

text \<open>
  A catalog entry is an object \<open>{ timezone, label }\<close>; \<open>interface WorldClock\<close> has the
  same two fields and \<open>id\<close> (named \<open>id_wc\<close> here, since \<open>id\<close> is the identity of HOL).
\<close>

record TimezoneEntry =
  timezone :: string
  label :: string

record WorldClock = TimezoneEntry +
  id_wc :: string

definition popularTimezones :: "TimezoneEntry list" where
  "popularTimezones =
    [\<lparr>timezone = ''America/New_York'', label = ''New York''\<rparr>,
     \<lparr>timezone = ''America/Los_Angeles'', label = ''Los Angeles''\<rparr>,
     \<lparr>timezone = ''America/Chicago'', label = ''Chicago''\<rparr>,
     \<lparr>timezone = ''Europe/London'', label = ''London''\<rparr>,
     \<lparr>timezone = ''Europe/Paris'', label = ''Paris''\<rparr>,
     \<lparr>timezone = ''Europe/Berlin'', label = ''Berlin''\<rparr>,
     \<lparr>timezone = ''Asia/Tokyo'', label = ''Tokyo''\<rparr>,
     \<lparr>timezone = ''Asia/Shanghai'', label = ''Shanghai''\<rparr>,
     \<lparr>timezone = ''Asia/Dubai'', label = ''Dubai''\<rparr>,
     \<lparr>timezone = ''Asia/Singapore'', label = ''Singapore''\<rparr>,
     \<lparr>timezone = ''Australia/Sydney'', label = ''Sydney''\<rparr>,
     \<lparr>timezone = ''Pacific/Auckland'', label = ''Auckland''\<rparr>]"

subsection \<open>Themes and presets\<close>

text \<open>
  Card variant: \<open>interface Theme { background; cardBackground; textColor }\<close>.  The five
  presets and the initial theme of this variant give no \<open>background\<close>, so reading the
  field yields \<open>undefined\<close>: the field is a \<open>string option\<close> with \<open>None\<close> for
  \<open>undefined\<close>.  A preset is \<open>Theme & { name: string }\<close>, a record extension.
\<close>

record Theme =
  background :: "string option"
  cardBackground :: string
  textColor :: string

record Preset = Theme +
  name :: string

definition presets :: "Preset list" where
  "presets =
    [\<lparr>background = None, cardBackground = ''#5b6abf'', textColor = ''#e8d5d0'', name = ''Ocean''\<rparr>,
     \<lparr>background = None, cardBackground = ''#1e293b'', textColor = ''#e2e8f0'', name = ''Midnight''\<rparr>,
     \<lparr>background = None, cardBackground = ''#166534'', textColor = ''#bbf7d0'', name = ''Forest''\<rparr>,
     \<lparr>background = None, cardBackground = ''#b45309'', textColor = ''#fef3c7'', name = ''Sunset''\<rparr>,
     \<lparr>background = None, cardBackground = ''#7c3aed'', textColor = ''#e9d5ff'', name = ''Berry''\<rparr>]"

text \<open>Glow variant: \<open>interface Theme { background; clockText; dateText; accent }\<close>.\<close>

record Theme_v2 =
  background_v2 :: string
  clockText :: string
  dateText :: string
  accent :: string

record Preset_v2 = Theme_v2 +
  name_v2 :: string

definition presets_v2 :: "Preset_v2 list" where
  "presets_v2 =
    [\<lparr>background_v2 = ''#0f172a'', clockText = ''#f8fafc'', dateText = ''#94a3b8'',
      accent = ''#38bdf8'', name_v2 = ''Midnight''\<rparr>,
     \<lparr>background_v2 = ''#451a03'', clockText = ''#fef3c7'', dateText = ''#d6d3d1'',
      accent = ''#f59e0b'', name_v2 = ''Sunset''\<rparr>,
     \<lparr>background_v2 = ''#052e16'', clockText = ''#dcfce7'', dateText = ''#86efac'',
      accent = ''#22c55e'', name_v2 = ''Forest''\<rparr>,
     \<lparr>background_v2 = ''#fdf2f8'', clockText = ''#db2777'', dateText = ''#f472b6'',
      accent = ''#ec4899'', name_v2 = ''Cotton Candy''\<rparr>,
     \<lparr>background_v2 = ''#000000'', clockText = ''#00ff00'', dateText = ''#008f00'',
      accent = ''#00ff00'', name_v2 = ''Matrix''\<rparr>]"

subsection \<open>Component state\<close>

text \<open>
  The \<open>useState\<close> cells of the component, with what the visibility effect and the host
  own beside them.

  Every run of the visibility effect declares its own variable \<open>timeout\<close> and its own
  closure \<open>handleMouseMove\<close>, which captures that variable and the values of the
  dependency array \<open>[isFullscreen, isSettingsOpen, isAddingClock]\<close> (\<open>deps\<close>) of that run.
  Runs are numbered; a \<open>closure\<close> is the number of its run with the captured
  dependencies.
  \<^item> \<open>effectRuns\<close> is the number of runs of the visibility effect so far;
  \<^item> \<open>cleanup\<close> is the cleanup function that the latest run returned, given by the number
    of that run (\<open>None\<close>: it returned none);
  \<^item> \<open>timers\<close> are the host's pending timeouts of \<open>setTimeout\<close>, oldest first: the run
    whose variable \<open>timeout\<close> holds the timer, the milliseconds left, and the dependencies
    its callback captured;
  \<^item> \<open>listeners\<close> are the \<open>mousemove\<close> listeners registered at \<open>window\<close>, in the order of
    their registration;
  \<^item> \<open>fullscreenElement\<close> is the host's \<open>document.fullscreenElement\<close>, as \<open>!!\<close> reads it;
  \<^item> \<open>console\<close> is what \<open>console.error\<close> has logged.

  The cell \<open>time\<close>, which the one-second ticker alone writes, is the argument \<open>time\<close>
  of the formatter below and no field here.  The cell \<open>locationName\<close> exists in the glow
  variant only; the card variant starts it empty and has no call that writes it.  The
  theme is a type parameter, since the two variants differ in it.
\<close>

type_synonym deps = "bool \<times> bool \<times> bool"

type_synonym closure = "nat \<times> deps"

record Timeout =
  setBy :: nat
  msLeft :: nat
  captured :: deps

record 'th ClockApp =
  isSettingsOpen :: bool
  isFullscreen :: bool
  showControls :: bool
  worldClocks :: "WorldClock list"
  isAddingClock :: bool
  theme :: 'th
  locationName :: string
  effectRuns :: nat
  cleanup :: "nat option"
  timers :: "Timeout list"
  listeners :: "closure list"
  fullscreenElement :: bool
  console :: "string list"

section \<open>World clock registry\<close>

subsection \<open>\<open>Date.now().toString()\<close>\<close>

text \<open>
  \<open>Date.now()\<close> is an integral number of milliseconds, far below \<open>1e21\<close> in magnitude, so
  \<open>toString()\<close> writes it in plain decimal notation, with a minus sign before a negative
  reading (a host clock set before 1970).
\<close>

definition digit :: "nat \<Rightarrow> char" where
  "digit d = char_of (48 + d)"

fun digits :: "nat \<Rightarrow> string" where
  "digits n = (if n < 10 then [digit n] else digits (n div 10) @ [digit (n mod 10)])"

declare digits.simps [simp del]

definition toString :: "int \<Rightarrow> string" where
  "toString n = (if n < 0 then CHR ''-'' # digits (nat (- n)) else digits (nat n))"

subsection \<open>Operations\<close>

text \<open>
  \<open>addWorldClock\<close> (lines 162-170 and 654-662).  The reading of \<open>Date.now()\<close> is the
  argument \<open>now\<close>.  \<open>setIsAddingClock(false)\<close> touches a dependency of the visibility
  effect; the setter is defined with the effect below, so the registry part is a function
  of its own here.
\<close>

definition newClock :: "int \<Rightarrow> string \<Rightarrow> string \<Rightarrow> WorldClock" where
  "newClock now tz lbl = \<lparr>timezone = tz, label = lbl, id_wc = toString now\<rparr>"

definition appendClock :: "int \<Rightarrow> string \<Rightarrow> string \<Rightarrow> WorldClock list \<Rightarrow> WorldClock list" where
  "appendClock now tz lbl prev = prev @ [newClock now tz lbl]"

text \<open>\<open>removeWorldClock\<close> (lines 172-174 and 664-666): \<open>prev.filter(c => c.id !== id)\<close>.\<close>

definition removeWorldClock :: "string \<Rightarrow> 'th ClockApp \<Rightarrow> 'th ClockApp" where
  "removeWorldClock i s = s\<lparr>worldClocks := filter (\<lambda>c. id_wc c \<noteq> i) (worldClocks s)\<rparr>"

text \<open>
  \<open>availableTimezones\<close> (lines 176-178 and 668-670), recomputed at every render:
  \<open>popularTimezones.filter(tz => !worldClocks.some(wc => wc.timezone === tz.timezone))\<close>.
\<close>

definition some :: "('a \<Rightarrow> bool) \<Rightarrow> 'a list \<Rightarrow> bool" where
  "some p xs = list_ex p xs"

definition availableTimezones :: "'th ClockApp \<Rightarrow> TimezoneEntry list" where
  "availableTimezones s =
     filter (\<lambda>tz. \<not> some (\<lambda>wc. timezone wc = timezone tz) (worldClocks s)) popularTimezones"

section \<open>Visibility of the controls\<close>

subsection \<open>The effect \<open>useEffect(..., [isFullscreen, isSettingsOpen, isAddingClock])\<close>\<close>

text \<open>
  Lines 61-86 and 535-560.  \<open>handleMouseMove\<close> is a closure of one run of the effect:
  the callback it schedules tests the \<open>isFullscreen\<close>, \<open>isSettingsOpen\<close> and
  \<open>isAddingClock\<close> of that run, not the current cells.  \<open>clearTimeout(timeout)\<close> cancels
  the timer that the variable \<open>timeout\<close> of that run holds, if it is still pending, and no
  timer of another run; \<open>setTimeout(..., 3000)\<close> then adds a timer, held by the same
  variable.
\<close>

definition currentDeps :: "'th ClockApp \<Rightarrow> deps" where
  "currentDeps s = (isFullscreen s, isSettingsOpen s, isAddingClock s)"

definition clearTimeout :: "nat \<Rightarrow> Timeout list \<Rightarrow> Timeout list" where
  "clearTimeout r ts = filter (\<lambda>t. setBy t \<noteq> r) ts"

definition handleMouseMove :: "closure \<Rightarrow> 'th ClockApp \<Rightarrow> 'th ClockApp" where
  "handleMouseMove c s =
     (case c of (r, d) \<Rightarrow>
        s\<lparr>showControls := True,
          timers := clearTimeout r (timers s) @ [\<lparr>setBy = r, msLeft = 3000, captured = d\<rparr>]\<rparr>)"

text \<open>The callback of the timer, with the dependencies \<open>(f, so, ac)\<close> it captured.\<close>

definition timerCallback :: "deps \<Rightarrow> 'th ClockApp \<Rightarrow> 'th ClockApp" where
  "timerCallback d s =
     (case d of (f, so, ac) \<Rightarrow> if f \<and> \<not> so \<and> \<not> ac then s\<lparr>showControls := False\<rparr> else s)"

text \<open>
  The cleanup returned by a run of the effect in fullscreen:
  \<open>removeEventListener('mousemove', handleMouseMove)\<close> and \<open>clearTimeout(timeout)\<close>, both
  for the closure and the variable of that run.  A run out of fullscreen returns none.
\<close>

definition effectCleanup :: "'th ClockApp \<Rightarrow> 'th ClockApp" where
  "effectCleanup s =
     (case cleanup s of
        None \<Rightarrow> s
      | Some r \<Rightarrow>
          s\<lparr>listeners := filter (\<lambda>c. fst c \<noteq> r) (listeners s),
            timers := clearTimeout r (timers s),
            cleanup := None\<rparr>)"

text \<open>
  The body of the effect, as run number \<open>r\<close>: out of fullscreen it shows the controls and
  returns with no listener and no cleanup; in fullscreen it calls \<open>handleMouseMove()\<close>
  once, registers it for \<open>mousemove\<close> and returns the cleanup.
\<close>

definition effectBody :: "'th ClockApp \<Rightarrow> 'th ClockApp" where
  "effectBody s =
     (let r = Suc (effectRuns s); s1 = s\<lparr>effectRuns := r\<rparr> in
      if \<not> isFullscreen s then s1\<lparr>showControls := True, cleanup := None\<rparr>
      else (handleMouseMove (r, currentDeps s) s1)
             \<lparr>listeners := listeners s @ [(r, currentDeps s)], cleanup := Some r\<rparr>)"

text \<open>
  React runs the cleanup of the previous run and then the body whenever a dependency has
  changed; a setter called with the value the cell already holds changes nothing and runs
  no effect.
\<close>

definition visibilityEffect :: "'th ClockApp \<Rightarrow> 'th ClockApp" where
  "visibilityEffect s = effectBody (effectCleanup s)"

definition setIsFullscreen :: "bool \<Rightarrow> 'th ClockApp \<Rightarrow> 'th ClockApp" where
  "setIsFullscreen b s =
     (if isFullscreen s = b then s else visibilityEffect (s\<lparr>isFullscreen := b\<rparr>))"

definition setIsSettingsOpen :: "bool \<Rightarrow> 'th ClockApp \<Rightarrow> 'th ClockApp" where
  "setIsSettingsOpen b s =
     (if isSettingsOpen s = b then s else visibilityEffect (s\<lparr>isSettingsOpen := b\<rparr>))"

definition setIsAddingClock :: "bool \<Rightarrow> 'th ClockApp \<Rightarrow> 'th ClockApp" where
  "setIsAddingClock b s =
     (if isAddingClock s = b then s else visibilityEffect (s\<lparr>isAddingClock := b\<rparr>))"

text \<open>
  \<open>addWorldClock\<close> in full: \<open>setWorldClocks(prev => [...prev, newClock])\<close> and
  \<open>setIsAddingClock(false)\<close>.  It has no other statement: no check, no \<open>throw\<close>.
\<close>

definition addWorldClock :: "int \<Rightarrow> string \<Rightarrow> string \<Rightarrow> 'th ClockApp \<Rightarrow> 'th ClockApp" where
  "addWorldClock now tz lbl s =
     setIsAddingClock False (s\<lparr>worldClocks := appendClock now tz lbl (worldClocks s)\<rparr>)"

subsection \<open>Host events\<close>

text \<open>
  A \<open>mousemove\<close> event runs the registered listeners, in the order of registration.
  When \<open>ms\<close> milliseconds pass, a pending timer with more than \<open>ms\<close> milliseconds left
  keeps the rest; the others are gone, and their callbacks run, the timer that was due
  first going first (among equals, the older).
\<close>

definition mouseMove :: "'th ClockApp \<Rightarrow> 'th ClockApp" where
  "mouseMove s = fold handleMouseMove (listeners s) s"

definition elapse :: "nat \<Rightarrow> 'th ClockApp \<Rightarrow> 'th ClockApp" where
  "elapse ms s =
     (let due = filter (\<lambda>t. msLeft t \<le> ms) (timers s);
          pending = map (\<lambda>t. t\<lparr>msLeft := msLeft t - ms\<rparr>)
                      (filter (\<lambda>t. ms < msLeft t) (timers s))
      in fold timerCallback (map captured (sort_key msLeft due)) (s\<lparr>timers := pending\<rparr>))"

text \<open>
  \<open>handleFullscreenChange\<close> (lines 89-96 and 563-570), the listener of the host's
  \<open>fullscreenchange\<close> signal: \<open>setIsFullscreen(!!document.fullscreenElement)\<close>.
\<close>

definition handleFullscreenChange :: "'th ClockApp \<Rightarrow> 'th ClockApp" where
  "handleFullscreenChange s = setIsFullscreen (fullscreenElement s) s"

text \<open>
  \<open>toggleFullscreen\<close> (lines 98-108 and 572-582).  The host either grants the request,
  which changes \<open>document.fullscreenElement\<close> (its \<open>fullscreenchange\<close> signal is an event
  of its own, delivered afterwards), or rejects the promise, which the \<open>catch\<close> logs.
\<close>

definition toggleFullscreen :: "bool \<Rightarrow> 'th ClockApp \<Rightarrow> 'th ClockApp" where
  "toggleFullscreen granted s =
     (if \<not> fullscreenElement s then
        (if granted then s\<lparr>fullscreenElement := True\<rparr>
         else s\<lparr>console := console s @ [''Fullscreen error:'']\<rparr>)
      else
        (if granted then s\<lparr>fullscreenElement := False\<rparr>
         else s\<lparr>console := console s @ [''Fullscreen error:'']\<rparr>))"

text \<open>The host leaves or enters fullscreen by itself (the ESC key, a browser control).\<close>

definition hostSetsFullscreen :: "bool \<Rightarrow> 'th ClockApp \<Rightarrow> 'th ClockApp" where
  "hostSetsFullscreen b s = s\<lparr>fullscreenElement := b\<rparr>"

section \<open>Theme store\<close>

text \<open>
  \<open>applyPreset\<close> (lines 154-160): \<open>setTheme\<close> with an object literal that reads the three
  fields of the preset.  \<open>handleColorChange\<close> (lines 150-152):
  \<open>setTheme(prev => ({ ...prev, [key]: value }))\<close> with \<open>key: keyof Theme\<close>.
\<close>

definition applyPreset :: "Preset \<Rightarrow> Theme ClockApp \<Rightarrow> Theme ClockApp" where
  "applyPreset preset s =
     s\<lparr>theme := \<lparr>background = background preset,
                  cardBackground = cardBackground preset,
                  textColor = textColor preset\<rparr>\<rparr>"

datatype keyof_Theme = Key_background | Key_cardBackground | Key_textColor

definition handleColorChange :: "keyof_Theme \<Rightarrow> string \<Rightarrow> Theme ClockApp \<Rightarrow> Theme ClockApp" where
  "handleColorChange key v s =
     s\<lparr>theme := (case key of
                   Key_background \<Rightarrow> (theme s)\<lparr>background := Some v\<rparr>
                 | Key_cardBackground \<Rightarrow> (theme s)\<lparr>cardBackground := v\<rparr>
                 | Key_textColor \<Rightarrow> (theme s)\<lparr>textColor := v\<rparr>)\<rparr>"

text \<open>The same two functions of the glow variant (lines 641-652).\<close>

definition applyPreset_v2 :: "Preset_v2 \<Rightarrow> Theme_v2 ClockApp \<Rightarrow> Theme_v2 ClockApp" where
  "applyPreset_v2 preset s =
     s\<lparr>theme := \<lparr>background_v2 = background_v2 preset,
                  clockText = clockText preset,
                  dateText = dateText preset,
                  accent = accent preset\<rparr>\<rparr>"

datatype keyof_Theme_v2 = Key_background_v2 | Key_clockText | Key_dateText | Key_accent

definition handleColorChange_v2 ::
  "keyof_Theme_v2 \<Rightarrow> string \<Rightarrow> Theme_v2 ClockApp \<Rightarrow> Theme_v2 ClockApp" where
  "handleColorChange_v2 key v s =
     s\<lparr>theme := (case key of
                   Key_background_v2 \<Rightarrow> (theme s)\<lparr>background_v2 := v\<rparr>
                 | Key_clockText \<Rightarrow> (theme s)\<lparr>clockText := v\<rparr>
                 | Key_dateText \<Rightarrow> (theme s)\<lparr>dateText := v\<rparr>
                 | Key_accent \<Rightarrow> (theme s)\<lparr>accent := v\<rparr>)\<rparr>"

section \<open>Formatter of a time zone\<close>

text \<open>
  \<open>formatTimeForTimezone\<close> (lines 141-148 and 622-629) is one call of the host's
  \<open>Date.prototype.toLocaleTimeString\<close>, with no \<open>try\<close> around it: what the host returns
  is returned, what the host throws is thrown.  The host function is a parameter; the
  only exception it is known to throw for these options is \<open>RangeError\<close>.  The type
  \<open>'date\<close> is the host's \<open>Date\<close>.
\<close>

datatype host_error = RangeError

record TimeFormatOptions =
  hour :: string
  minute :: string
  hour12 :: bool
  timeZone :: string

type_synonym 'date toLocaleTimeString = "'date \<Rightarrow> TimeFormatOptions \<Rightarrow> host_error + string"

definition formatTimeForTimezone ::
  "'date toLocaleTimeString \<Rightarrow> 'date \<Rightarrow> string \<Rightarrow> host_error + string" where
  "formatTimeForTimezone toLocaleTimeString time tz =
     toLocaleTimeString time
       \<lparr>hour = ''2-digit'', minute = ''2-digit'', hour12 = False, timeZone = tz\<rparr>"

definition formatTimeForTimezone_v2 ::
  "'date toLocaleTimeString \<Rightarrow> 'date \<Rightarrow> string \<Rightarrow> host_error + string" where
  "formatTimeForTimezone_v2 toLocaleTimeString time tz =
     toLocaleTimeString time
       \<lparr>hour = ''2-digit'', minute = ''2-digit'', hour12 = True, timeZone = tz\<rparr>"

text \<open>
  A host rejects the identifier \<open>z\<close> when its \<open>toLocaleTimeString\<close> throws \<open>RangeError\<close>
  for every date and every option object whose \<open>timeZone\<close> is \<open>z\<close>.
\<close>

definition rejects :: "'date toLocaleTimeString \<Rightarrow> string \<Rightarrow> bool" where
  "rejects toLocaleTimeString z \<longleftrightarrow>
     (\<forall>t opts. timeZone opts = z \<longrightarrow> toLocaleTimeString t opts = Inl RangeError)"

section \<open>Location lookup of the glow variant\<close>

text \<open>
  \<open>String.prototype.replace\<close> with a string pattern replaces the first occurrence of the
  pattern only; the replacement \<open>' '\<close> has no \<open>$\<close> pattern.
\<close>

fun replace :: "string \<Rightarrow> string \<Rightarrow> string \<Rightarrow> string" where
  "replace pat rep [] = (if pat = [] then rep else [])"
| "replace pat rep (c # cs) =
     (if prefix pat (c # cs) then rep @ drop (length pat) (c # cs)
      else c # replace pat rep cs)"

text \<open>
  The answer of the reverse-geocoding service, as far as \<open>fetchLocation\<close> reads it; a
  field the answer lacks is \<open>None\<close>.  \<open>a || b\<close> yields \<open>b\<close> when \<open>a\<close> is \<open>undefined\<close> or the
  empty string.
\<close>

record GeocodeData =
  city :: "string option"
  locality :: "string option"
  principalSubdivision :: "string option"
  countryCode :: "string option"

definition orElse :: "string option \<Rightarrow> string \<Rightarrow> string" where
  "orElse a b = (case a of None \<Rightarrow> b | Some x \<Rightarrow> if x = [] then b else x)"

text \<open>
  What the host does with one call of \<open>fetchLocation\<close>: \<open>navigator.geolocation\<close> is
  missing; neither callback of \<open>getCurrentPosition\<close> has been called; the error callback
  is called; the success callback is called and the \<open>try\<close> block throws (the \<open>fetch\<close> or
  \<open>response.json()\<close> fails); the success callback is called and the service answers.
\<close>

datatype lookup = NoGeolocation | NoAnswer | PositionError | FetchFails | Answer GeocodeData

text \<open>
  \<open>fetchLocation\<close> (lines 584-612); \<open>tz\<close> is the host's
  \<open>Intl.DateTimeFormat().resolvedOptions().timeZone\<close>.
\<close>

definition fetchLocation :: "lookup \<Rightarrow> string \<Rightarrow> 'th ClockApp \<Rightarrow> 'th ClockApp" where
  "fetchLocation host tz s =
     (let s1 = s\<lparr>locationName := ''Locating...''\<rparr> in
      case host of
        NoGeolocation \<Rightarrow> s1\<lparr>locationName := ''Location not supported''\<rparr>
      | NoAnswer \<Rightarrow> s1
      | PositionError \<Rightarrow> s1\<lparr>locationName := replace ''_'' '' '' tz\<rparr>
      | FetchFails \<Rightarrow> s1\<lparr>locationName := replace ''_'' '' '' tz\<rparr>
      | Answer data \<Rightarrow>
          (let cityName = orElse (city data) (orElse (locality data)
                            (orElse (principalSubdivision data) ''Unknown Location''));
               country = orElse (countryCode data) []
           in s1\<lparr>locationName := cityName @ '', '' @ country\<rparr>))"

section \<open>Runs of the component\<close>

text \<open>
  The state after mounting: the initial values of the \<open>useState\<close> cells, on which the
  effects have run once, in the order of their declaration.  The first run of the
  visibility effect has no cleanup before it.  The glow variant calls \<open>fetchLocation()\<close>
  in an effect declared before the visibility effect (lines 530-532); what the host does
  with that call (\<open>NoAnswer\<close> when no callback has been called yet) and the host's time
  zone are arguments of its initial state.
\<close>

definition initialCells :: "'th \<Rightarrow> WorldClock list \<Rightarrow> string \<Rightarrow> 'th ClockApp" where
  "initialCells th wcs loc =
     \<lparr>isSettingsOpen = False, isFullscreen = False, showControls = True,
      worldClocks = wcs, isAddingClock = False, theme = th, locationName = loc,
      effectRuns = 0, cleanup = None, timers = [], listeners = [],
      fullscreenElement = False, console = []\<rparr>"

definition initialState :: "Theme ClockApp" where
  "initialState =
     effectBody (initialCells
       \<lparr>background = None, cardBackground = ''#5b6abf'', textColor = ''#e8d5d0''\<rparr> [] [])"

definition initialState_v2 :: "lookup \<Rightarrow> string \<Rightarrow> Theme_v2 ClockApp" where
  "initialState_v2 host tz =
     effectBody (fetchLocation host tz (initialCells
       \<lparr>background_v2 = ''#1a1a1a'', clockText = ''#ffffff'', dateText = ''#a3a3a3'',
        accent = ''#3b82f6''\<rparr>
       [\<lparr>timezone = ''Europe/London'', label = ''London'', id_wc = ''1''\<rparr>,
        \<lparr>timezone = ''Asia/Tokyo'', label = ''Tokyo'', id_wc = ''2''\<rparr>]
       ''Detecting Location...''))"

text \<open>
  The events a mounted component receives: from the user through the handlers of the
  view, from the host, and from the passing of time.  \<open>SetTheme\<close> stands for any call of
  \<open>setTheme\<close> (\<open>applyPreset\<close> and \<open>handleColorChange\<close> are such calls).
\<close>

datatype 'th event =
    MouseMove
  | Elapse nat
  | FullscreenChange
  | HostSetsFullscreen bool
  | ToggleFullscreen bool
  | SetIsSettingsOpen bool
  | SetIsAddingClock bool
  | AddWorldClock int string string
  | RemoveWorldClock string
  | SetTheme "'th \<Rightarrow> 'th"
  | FetchLocation lookup string

fun step :: "'th event \<Rightarrow> 'th ClockApp \<Rightarrow> 'th ClockApp" where
  "step MouseMove s = mouseMove s"
| "step (Elapse ms) s = elapse ms s"
| "step FullscreenChange s = handleFullscreenChange s"
| "step (HostSetsFullscreen b) s = hostSetsFullscreen b s"
| "step (ToggleFullscreen granted) s = toggleFullscreen granted s"
| "step (SetIsSettingsOpen b) s = setIsSettingsOpen b s"
| "step (SetIsAddingClock b) s = setIsAddingClock b s"
| "step (AddWorldClock now tz lbl) s = addWorldClock now tz lbl s"
| "step (RemoveWorldClock i) s = removeWorldClock i s"
| "step (SetTheme f) s = s\<lparr>theme := f (theme s)\<rparr>"
| "step (FetchLocation host tz) s = fetchLocation host tz s"

fun run :: "'th ClockApp \<Rightarrow> 'th event list \<Rightarrow> 'th ClockApp" where
  "run s [] = s"
| "run s (e # es) = run (step e s) es"

text \<open>The readings of \<open>Date.now()\<close> taken by the \<open>addWorldClock\<close> calls of a run, in order.\<close>

fun addTimes :: "'th event list \<Rightarrow> int list" where
  "addTimes [] = []"
| "addTimes (AddWorldClock now tz lbl # es) = now # addTimes es"
| "addTimes (e # es) = addTimes es"

section \<open>Properties of states\<close>

text \<open>
  An invariant of the visibility effect.  In every state a run can reach, hidden controls
  mean fullscreen with no modal open, and every pending timer and every registered
  listener belongs to the latest run of the effect, which returned a cleanup for them,
  and has captured the current dependencies.
\<close>

definition effectInvariant :: "'th ClockApp \<Rightarrow> bool" where
  "effectInvariant s \<longleftrightarrow>
     (\<not> showControls s \<longrightarrow> isFullscreen s \<and> \<not> isSettingsOpen s \<and> \<not> isAddingClock s)
     \<and> (\<forall>t\<in>set (timers s). cleanup s = Some (setBy t) \<and> captured t = currentDeps s)
     \<and> (\<forall>c\<in>set (listeners s). cleanup s = Some (fst c) \<and> snd c = currentDeps s)"

text \<open>
  A fresh inactivity cycle in fullscreen: the controls are visible; the only pending timer
  is one of the latest run of the effect with its full 3000 ms, and the only listener is
  the closure of that run, so nothing of an earlier cycle is left; and when \<open>ms\<close>
  milliseconds pass with no other event, the controls are visible exactly if less than
  3000 ms have passed or a modal is open.
\<close>

definition freshCycle :: "'th ClockApp \<Rightarrow> nat \<Rightarrow> bool" where
  "freshCycle s ms \<longleftrightarrow>
     isFullscreen s \<and> showControls s
     \<and> timers s = [\<lparr>setBy = effectRuns s, msLeft = 3000, captured = currentDeps s\<rparr>]
     \<and> listeners s = [(effectRuns s, currentDeps s)]
     \<and> cleanup s = Some (effectRuns s)
     \<and> showControls (elapse ms s) = (ms < 3000 \<or> isSettingsOpen s \<or> isAddingClock s)"

text \<open>
  The four ways into a fresh cycle from a state \<open>s\<close>: in fullscreen, closing the settings
  modal, closing the add-clock modal by \<open>setIsAddingClock(false)\<close> or by \<open>addWorldClock\<close>;
  out of fullscreen, the host's signal that fullscreen has been entered.
\<close>

definition restartsIdleCycle :: "'th ClockApp \<Rightarrow> int \<Rightarrow> string \<Rightarrow> string \<Rightarrow> nat \<Rightarrow> bool" where
  "restartsIdleCycle s now tz lbl ms \<longleftrightarrow>
     (isFullscreen s \<and> isSettingsOpen s \<longrightarrow> freshCycle (setIsSettingsOpen False s) ms)
     \<and> (isFullscreen s \<and> isAddingClock s \<longrightarrow>
          freshCycle (setIsAddingClock False s) ms
          \<and> freshCycle (addWorldClock now tz lbl s) ms)
     \<and> (\<not> isFullscreen s \<and> fullscreenElement s \<longrightarrow> freshCycle (handleFullscreenChange s) ms)"

section \<open>Decimal identifiers are injective\<close>

lemma of_char_digit: "d < 10 \<Longrightarrow> (of_char (digit d) :: nat) = 48 + d"
  by (simp add: digit_def)

lemma digit_inj:
  assumes "a < 10" and "b < 10" and "digit a = digit b"
  shows "a = b"
proof -
  have "(of_char (digit a) :: nat) = of_char (digit b)"
    by (simp only: assms(3))
  then have "48 + a = 48 + b"
    by (simp only: of_char_digit [OF assms(1)] of_char_digit [OF assms(2)])
  then show ?thesis by simp
qed

lemma digit_not_minus: "d < 10 \<Longrightarrow> digit d \<noteq> CHR ''-''"
proof
  assume "d < 10" and "digit d = CHR ''-''"
  then have "(of_char (CHR ''-'') :: nat) = 48 + d"
    by (simp only: of_char_digit [symmetric])
  then show False by simp
qed

lemma digits_small: "n < 10 \<Longrightarrow> digits n = [digit n]"
  by (subst digits.simps) simp

lemma digits_big: "10 \<le> n \<Longrightarrow> digits n = digits (n div 10) @ [digit (n mod 10)]"
  by (subst digits.simps) simp

lemma digits_nonempty: "digits n \<noteq> []"
  by (subst digits.simps) simp

lemma digits_length: "10 \<le> n \<Longrightarrow> 2 \<le> length (digits n)"
  using digits_nonempty [of "n div 10"]
  by (subst digits.simps) (cases "digits (n div 10)"; simp)

lemma digits_no_minus: "CHR ''-'' \<notin> set (digits n)"
proof (induction n rule: digits.induct)
  case (1 n)
  show ?case
  proof (cases "n < 10")
    case True
    then show ?thesis using digit_not_minus [of n] by (simp add: digits_small)
  next
    case False
    then have "CHR ''-'' \<notin> set (digits (n div 10))" using 1 by simp
    moreover have "digit (n mod 10) \<noteq> CHR ''-''" by (rule digit_not_minus) simp
    ultimately show ?thesis using False by (simp add: digits_big)
  qed
qed

lemma digits_inj: "digits m = digits n \<Longrightarrow> m = n"
proof (induction m arbitrary: n rule: digits.induct)
  case (1 m)
  show ?case
  proof (cases "m < 10")
    case m: True
    show ?thesis
    proof (cases "n < 10")
      case True
      with m 1(2) show ?thesis by (simp add: digits_small digit_inj)
    next
      case False
      then have "2 \<le> length (digits n)" by (simp add: digits_length)
      moreover have "length (digits m) = 1" using m by (simp add: digits_small)
      ultimately show ?thesis using 1(2) by simp
    qed
  next
    case m: False
    show ?thesis
    proof (cases "n < 10")
      case True
      from m have "2 \<le> length (digits m)" by (simp add: digits_length)
      moreover have "length (digits n) = 1" using True by (simp add: digits_small)
      ultimately show ?thesis using 1(2) by simp
    next
      case False
      with m 1(2) have eq: "digits (m div 10) = digits (n div 10)"
        and d: "digit (m mod 10) = digit (n mod 10)"
        by (simp_all add: digits_big)
      from 1(1) [OF m eq] have "m div 10 = n div 10" .
      moreover from d have "m mod 10 = n mod 10" by (intro digit_inj) simp_all
      ultimately show ?thesis by (metis div_mult_mod_eq)
    qed
  qed
qed

lemma toString_inj: "toString a = toString b \<Longrightarrow> a = b"
proof -
  assume eq: "toString a = toString b"
  have no_sign: "\<And>n. hd (digits n) \<noteq> CHR ''-''"
    using digits_no_minus digits_nonempty by (metis list.set_sel(1))
  show ?thesis
  proof (cases "a < 0")
    case a: True
    show ?thesis
    proof (cases "b < 0")
      case True
      with a eq have "digits (nat (- a)) = digits (nat (- b))" by (simp add: toString_def)
      then have "nat (- a) = nat (- b)" by (rule digits_inj)
      with a True show ?thesis by simp
    next
      case False
      with a eq have "CHR ''-'' # digits (nat (- a)) = digits (nat b)"
        by (simp add: toString_def)
      then show ?thesis using no_sign [of "nat b"] by (metis list.sel(1))
    qed
  next
    case a: False
    show ?thesis
    proof (cases "b < 0")
      case True
      with a eq have "digits (nat a) = CHR ''-'' # digits (nat (- b))"
        by (simp add: toString_def)
      then show ?thesis using no_sign [of "nat a"] by (metis list.sel(1))
    next
      case False
      with a eq have "digits (nat a) = digits (nat b)" by (simp add: toString_def)
      then have "nat a = nat b" by (rule digits_inj)
      with a False show ?thesis by simp
    qed
  qed
qed

lemma toString_1: "toString 1 = ''1''"
  by code_simp

lemma toString_2: "toString 2 = ''2''"
  by code_simp

section \<open>What each operation leaves alone\<close>

lemmas effect_defs = visibilityEffect_def effectBody_def effectCleanup_def handleMouseMove_def
  currentDeps_def clearTimeout_def Let_def

lemmas run_defs = initialState_def initialState_v2_def initialCells_def effect_defs
  setIsFullscreen_def setIsSettingsOpen_def setIsAddingClock_def mouseMove_def elapse_def
  timerCallback_def handleFullscreenChange_def hostSetsFullscreen_def toggleFullscreen_def
  fetchLocation_def

lemma fold_frame: "(\<And>x s. g (f x s) = g s) \<Longrightarrow> g (fold f xs s) = g s"
  by (induction xs arbitrary: s) simp_all

lemma handleMouseMove_frame [simp]:
  "worldClocks (handleMouseMove c s) = worldClocks s"
  "isFullscreen (handleMouseMove c s) = isFullscreen s"
  "isSettingsOpen (handleMouseMove c s) = isSettingsOpen s"
  "isAddingClock (handleMouseMove c s) = isAddingClock s"
  "listeners (handleMouseMove c s) = listeners s"
  "cleanup (handleMouseMove c s) = cleanup s"
  "effectRuns (handleMouseMove c s) = effectRuns s"
  "showControls (handleMouseMove c s)"
  by (simp_all add: handleMouseMove_def split: prod.splits)

lemma timerCallback_frame [simp]:
  "worldClocks (timerCallback d s) = worldClocks s"
  "isFullscreen (timerCallback d s) = isFullscreen s"
  "isSettingsOpen (timerCallback d s) = isSettingsOpen s"
  "isAddingClock (timerCallback d s) = isAddingClock s"
  "listeners (timerCallback d s) = listeners s"
  "timers (timerCallback d s) = timers s"
  "cleanup (timerCallback d s) = cleanup s"
  "effectRuns (timerCallback d s) = effectRuns s"
  by (simp_all add: timerCallback_def split: prod.splits)

lemma mouseMove_frame [simp]:
  "worldClocks (mouseMove s) = worldClocks s"
  "isFullscreen (mouseMove s) = isFullscreen s"
  "isSettingsOpen (mouseMove s) = isSettingsOpen s"
  "isAddingClock (mouseMove s) = isAddingClock s"
  "listeners (mouseMove s) = listeners s"
  "cleanup (mouseMove s) = cleanup s"
  "effectRuns (mouseMove s) = effectRuns s"
  unfolding mouseMove_def by (simp_all add: fold_frame)

lemma elapse_frame [simp]:
  "worldClocks (elapse ms s) = worldClocks s"
  "isFullscreen (elapse ms s) = isFullscreen s"
  "isSettingsOpen (elapse ms s) = isSettingsOpen s"
  "isAddingClock (elapse ms s) = isAddingClock s"
  "listeners (elapse ms s) = listeners s"
  "cleanup (elapse ms s) = cleanup s"
  "effectRuns (elapse ms s) = effectRuns s"
  unfolding elapse_def Let_def by (simp_all add: fold_frame)

lemma timers_elapse:
  "timers (elapse ms s) =
     map (\<lambda>t. t\<lparr>msLeft := msLeft t - ms\<rparr>) (filter (\<lambda>t. ms < msLeft t) (timers s))"
  unfolding elapse_def Let_def by (simp add: fold_frame)

lemma visibilityEffect_frame [simp]:
  "worldClocks (visibilityEffect s) = worldClocks s"
  "isFullscreen (visibilityEffect s) = isFullscreen s"
  "isSettingsOpen (visibilityEffect s) = isSettingsOpen s"
  "isAddingClock (visibilityEffect s) = isAddingClock s"
  "showControls (visibilityEffect s)"
  by (auto simp: effect_defs split: option.splits)

lemma setIsAddingClock_frame [simp]:
  "worldClocks (setIsAddingClock b s) = worldClocks s"
  "isAddingClock (setIsAddingClock b s) = b"
  "isFullscreen (setIsAddingClock b s) = isFullscreen s"
  "isSettingsOpen (setIsAddingClock b s) = isSettingsOpen s"
  by (auto simp: setIsAddingClock_def)

lemma setIsSettingsOpen_frame [simp]:
  "worldClocks (setIsSettingsOpen b s) = worldClocks s"
  "isSettingsOpen (setIsSettingsOpen b s) = b"
  "isFullscreen (setIsSettingsOpen b s) = isFullscreen s"
  "isAddingClock (setIsSettingsOpen b s) = isAddingClock s"
  by (auto simp: setIsSettingsOpen_def)

lemma setIsFullscreen_frame [simp]:
  "worldClocks (setIsFullscreen b s) = worldClocks s"
  "isFullscreen (setIsFullscreen b s) = b"
  by (auto simp: setIsFullscreen_def)

lemma worldClocks_addWorldClock:
  "worldClocks (addWorldClock now tz lbl s) = worldClocks s @ [newClock now tz lbl]"
  by (simp add: addWorldClock_def appendClock_def)

lemma isAddingClock_addWorldClock: "\<not> isAddingClock (addWorldClock now tz lbl s)"
  by (simp add: addWorldClock_def)

lemma worldClocks_frame [simp]:
  "worldClocks (handleFullscreenChange s) = worldClocks s"
  "worldClocks (hostSetsFullscreen b s) = worldClocks s"
  "worldClocks (toggleFullscreen g s) = worldClocks s"
  "worldClocks (fetchLocation h tz s) = worldClocks s"
  by (auto simp: handleFullscreenChange_def hostSetsFullscreen_def toggleFullscreen_def
        fetchLocation_def Let_def split: lookup.splits)

lemma worldClocks_initial [simp]:
  "worldClocks (effectBody (initialCells th wcs loc)) = wcs"
  "worldClocks (effectBody (fetchLocation h tz (initialCells th wcs loc))) = wcs"
  by (simp_all add: effectBody_def initialCells_def fetchLocation_def Let_def
        split: lookup.splits)

lemma isFullscreen_frame:
  "isFullscreen (hostSetsFullscreen b s) = isFullscreen s"
  "isFullscreen (toggleFullscreen g s) = isFullscreen s"
  "isFullscreen (addWorldClock now tz lbl s) = isFullscreen s"
  "isFullscreen (removeWorldClock i s) = isFullscreen s"
  "isFullscreen (fetchLocation h tz s) = isFullscreen s"
  by (auto simp: hostSetsFullscreen_def toggleFullscreen_def
        addWorldClock_def removeWorldClock_def fetchLocation_def Let_def
        split: lookup.splits)

lemma isFullscreen_step: "e \<noteq> FullscreenChange \<Longrightarrow> isFullscreen (step e s) = isFullscreen s"
  by (cases e) (simp_all add: isFullscreen_frame)

lemma isFullscreen_signal: "isFullscreen (handleFullscreenChange s) = fullscreenElement s"
  by (simp add: handleFullscreenChange_def)

section \<open>The registry\<close>

lemma some_iff: "some p xs \<longleftrightarrow> (\<exists>x\<in>set xs. p x)"
  by (simp add: some_def list_ex_iff)

lemma some_timezone:
  "some (\<lambda>wc. timezone wc = z) wcs \<longleftrightarrow> z \<in> timezone ` set wcs"
  unfolding some_iff by (metis (mono_tags, lifting) image_iff)

lemma available_iff:
  "e \<in> set (availableTimezones s) \<longleftrightarrow>
     e \<in> set popularTimezones \<and> timezone e \<notin> timezone ` set (worldClocks s)"
  by (simp add: availableTimezones_def some_timezone)

text \<open>
  Claim C1, as the code has it.  \<open>addWorldClock\<close> never fails and never leaves the registry
  as it was: it appends the entry \<open>{ id: Date.now().toString(), timezone, label }\<close> whatever
  the registry holds, and closes the add prompt.  Duplicate time zones are kept out by the
  view alone, which calls it only with entries of \<open>availableTimezones\<close>: such an entry names
  no time zone of the registry, so adding it keeps the time zones of the registry pairwise
  distinct.
\<close>

theorem addWorldClock_always_appends:
  "worldClocks (addWorldClock now tz lbl s) =
     worldClocks s @ [\<lparr>timezone = tz, label = lbl, id_wc = toString now\<rparr>]
   \<and> \<not> isAddingClock (addWorldClock now tz lbl s)
   \<and> (e \<in> set (availableTimezones s) \<longrightarrow>
        timezone e \<notin> timezone ` set (worldClocks s)
        \<and> (distinct (map timezone (worldClocks s)) \<longrightarrow>
             distinct (map timezone (worldClocks (addWorldClock now (timezone e) (label e) s)))))"
  by (simp add: worldClocks_addWorldClock newClock_def isAddingClock_addWorldClock available_iff)

theorem addWorldClock_always_appends_witness:
  "\<lparr>timezone = ''Europe/London'', label = ''London''\<rparr>
      \<in> set (availableTimezones (addWorldClock 1700000000000 ''Asia/Tokyo'' ''Tokyo'' initialState))
   \<and> distinct (map timezone
        (worldClocks (addWorldClock 1700000000000 ''Asia/Tokyo'' ''Tokyo'' initialState)))
   \<and> map timezone (worldClocks (addWorldClock 1700000005000 ''Europe/London'' ''London''
        (addWorldClock 1700000000000 ''Asia/Tokyo'' ''Tokyo'' initialState)))
      = [''Asia/Tokyo'', ''Europe/London'']
   \<and> distinct (map timezone (worldClocks (addWorldClock 1700000005000 ''Europe/London'' ''London''
        (addWorldClock 1700000000000 ''Asia/Tokyo'' ''Tokyo'' initialState))))"
  using addWorldClock_always_appends [of 1700000005000 "''Europe/London''" "''London''"
      "addWorldClock 1700000000000 ''Asia/Tokyo'' ''Tokyo'' initialState"
      "\<lparr>timezone = ''Europe/London'', label = ''London''\<rparr>"]
  by (simp add: available_iff popularTimezones_def worldClocks_addWorldClock newClock_def
        initialState_def)

text \<open>
  Against claim C1 as stated: with \<open>Europe/London\<close> in the registry, a second
  \<open>addWorldClock\<close> for \<open>Europe/London\<close> changes the registry, which then holds the time
  zone twice.
\<close>

theorem addWorldClock_duplicate_counterexample:
  "worldClocks (addWorldClock 1700000005000 ''Europe/London'' ''Big Ben''
      (addWorldClock 1700000000000 ''Europe/London'' ''London'' initialState))
     \<noteq> worldClocks (addWorldClock 1700000000000 ''Europe/London'' ''London'' initialState)
   \<and> map timezone (worldClocks (addWorldClock 1700000005000 ''Europe/London'' ''Big Ben''
      (addWorldClock 1700000000000 ''Europe/London'' ''London'' initialState)))
     = [''Europe/London'', ''Europe/London'']"
  by (simp add: worldClocks_addWorldClock newClock_def initialState_def)

text \<open>How the identifiers of the registry evolve along a run.\<close>

lemma ids_run:
  "distinct (map id_wc (worldClocks s)) \<Longrightarrow> distinct (addTimes evs) \<Longrightarrow>
   \<forall>t\<in>set (addTimes evs). toString t \<notin> id_wc ` set (worldClocks s) \<Longrightarrow>
   distinct (map id_wc (worldClocks (run s evs)))"
proof (induction evs arbitrary: s)
  case Nil
  then show ?case by simp
next
  case (Cons e es)
  show ?case
  proof (cases e)
    case (AddWorldClock now tz lbl)
    have wc: "worldClocks (step e s) = worldClocks s @ [newClock now tz lbl]"
      by (simp add: worldClocks_addWorldClock AddWorldClock)
    have fresh: "toString now \<notin> id_wc ` set (worldClocks s)"
      using Cons.prems(3) AddWorldClock by simp
    have "distinct (map id_wc (worldClocks (step e s)))"
      using Cons.prems(1) fresh by (simp add: wc newClock_def)
    moreover have "distinct (addTimes es)" and now: "now \<notin> set (addTimes es)"
      using Cons.prems(2) AddWorldClock by simp_all
    moreover have "\<forall>t\<in>set (addTimes es). toString t \<notin> id_wc ` set (worldClocks (step e s))"
    proof
      fix t assume t: "t \<in> set (addTimes es)"
      then have "toString t \<notin> id_wc ` set (worldClocks s)"
        using Cons.prems(3) AddWorldClock by simp
      moreover have "toString t \<noteq> toString now"
        using t now toString_inj by blast
      ultimately show "toString t \<notin> id_wc ` set (worldClocks (step e s))"
        by (auto simp: wc newClock_def)
    qed
    ultimately show ?thesis using Cons.IH [of "step e s"] by simp
  next
    case (RemoveWorldClock i)
    have wc: "worldClocks (step e s) = filter (\<lambda>c. id_wc c \<noteq> i) (worldClocks s)"
      by (simp add: removeWorldClock_def RemoveWorldClock)
    have "distinct (map id_wc (worldClocks (step e s)))"
      using Cons.prems(1) by (simp add: wc distinct_map_filter)
    moreover have "addTimes (e # es) = addTimes es" using RemoveWorldClock by simp
    moreover have "id_wc ` set (worldClocks (step e s)) \<subseteq> id_wc ` set (worldClocks s)"
      by (auto simp: wc)
    ultimately show ?thesis using Cons.IH [of "step e s"] Cons.prems(2,3) by auto
  qed (use Cons in simp_all)
qed

text \<open>
  Claim C4, as the code has it.  The identifier of a new entry is the decimal text of the
  reading of \<open>Date.now()\<close> at the call, and nothing else makes it fresh.  In every state a
  run reaches, the identifiers of the registry are pairwise distinct provided the
  \<open>addWorldClock\<close> calls of the run read pairwise distinct times; in the glow variant,
  whose registry starts with the identifiers \<open>1\<close> and \<open>2\<close> whatever the host does with
  the location lookup at mounting, provided also that no call reads the time 1 or 2.
\<close>

theorem ids_distinct_for_distinct_times:
  "(distinct (addTimes evs) \<longrightarrow>
      distinct (map id_wc (worldClocks (run initialState evs))))
   \<and> (distinct (addTimes evs2) \<and> 1 \<notin> set (addTimes evs2) \<and> 2 \<notin> set (addTimes evs2) \<longrightarrow>
      distinct (map id_wc (worldClocks (run (initialState_v2 host tz) evs2))))"
proof (intro conjI impI)
  assume "distinct (addTimes evs)"
  then show "distinct (map id_wc (worldClocks (run initialState evs)))"
    by (intro ids_run) (simp_all add: initialState_def)
next
  assume a: "distinct (addTimes evs2) \<and> 1 \<notin> set (addTimes evs2) \<and> 2 \<notin> set (addTimes evs2)"
  have "\<forall>t\<in>set (addTimes evs2). toString t \<noteq> ''1'' \<and> toString t \<noteq> ''2''"
    using a toString_inj toString_1 toString_2 by metis
  then show "distinct (map id_wc (worldClocks (run (initialState_v2 host tz) evs2)))"
    using a by (intro ids_run) (auto simp: initialState_v2_def)
qed

theorem ids_distinct_for_distinct_times_witness:
  "distinct (addTimes ([AddWorldClock 1700000000000 ''Europe/London'' ''London'',
       AddWorldClock 1700000000001 ''Asia/Tokyo'' ''Tokyo''] :: Theme event list))
   \<and> distinct (map id_wc (worldClocks (run initialState
      [AddWorldClock 1700000000000 ''Europe/London'' ''London'',
       AddWorldClock 1700000000001 ''Asia/Tokyo'' ''Tokyo''])))
   \<and> distinct (addTimes
        ([AddWorldClock 1700000000000 ''Europe/Paris'' ''Paris''] :: Theme_v2 event list))
   \<and> 1 \<notin> set (addTimes
        ([AddWorldClock 1700000000000 ''Europe/Paris'' ''Paris''] :: Theme_v2 event list))
   \<and> 2 \<notin> set (addTimes
        ([AddWorldClock 1700000000000 ''Europe/Paris'' ''Paris''] :: Theme_v2 event list))
   \<and> distinct (map id_wc (worldClocks (run (initialState_v2 NoAnswer ''Europe/Paris'')
      [AddWorldClock 1700000000000 ''Europe/Paris'' ''Paris''])))"
  using ids_distinct_for_distinct_times
    [of "[AddWorldClock 1700000000000 ''Europe/London'' ''London'',
          AddWorldClock 1700000000001 ''Asia/Tokyo'' ''Tokyo'']"
        "[AddWorldClock 1700000000000 ''Europe/Paris'' ''Paris'']" NoAnswer "''Europe/Paris''"]
  by simp

text \<open>
  Against claim C4 as stated: two \<open>addWorldClock\<close> calls that read the same millisecond
  give two entries the same identifier.
\<close>

theorem ids_same_millisecond_counterexample:
  "\<not> distinct (map id_wc (worldClocks (run initialState
      [SetIsAddingClock True, AddWorldClock 1700000000000 ''Europe/London'' ''London'',
       SetIsAddingClock True, AddWorldClock 1700000000000 ''Asia/Tokyo'' ''Tokyo''])))"
  by (simp add: worldClocks_addWorldClock newClock_def initialState_def)

lemma worldClocks_remove_add:
  "worldClocks (removeWorldClock (toString now) (addWorldClock now tz lbl s)) =
     filter (\<lambda>c. id_wc c \<noteq> toString now) (worldClocks s)"
  by (simp add: removeWorldClock_def worldClocks_addWorldClock newClock_def)

lemma last_added:
  "last (worldClocks (addWorldClock now tz lbl s)) = newClock now tz lbl"
  by (simp add: worldClocks_addWorldClock)

lemma availableTimezones_cong:
  "worldClocks s = worldClocks s' \<Longrightarrow> availableTimezones s = availableTimezones s'"
  by (simp add: availableTimezones_def)

text \<open>
  Claim C5, as the code has it.  \<open>availableTimezones\<close> is the catalog without the entries
  whose time zone the registry holds, so no entry of it names a registered time zone.
  For an entry \<open>e\<close> of it, that is a catalog entry whose time zone is not registered (the
  entries the add prompt offers), \<open>addWorldClock\<close> for \<open>e\<close> followed by \<open>removeWorldClock\<close>
  of the identifier of the entry just appended has \<open>e\<close> available again; when that
  identifier was not in the registry before, the registry and the whole available list
  are as they were.
\<close>

theorem availableTimezones_complement_roundtrip:
  "availableTimezones s =
     filter (\<lambda>tz. timezone tz \<notin> timezone ` set (worldClocks s)) popularTimezones
   \<and> (\<forall>a\<in>set (availableTimezones s). \<forall>wc\<in>set (worldClocks s). timezone wc \<noteq> timezone a)
   \<and> (e \<in> set (availableTimezones s) \<longrightarrow>
        e \<notin> set (availableTimezones (addWorldClock now (timezone e) (label e) s))
        \<and> e \<in> set (availableTimezones
            (removeWorldClock
               (id_wc (last (worldClocks (addWorldClock now (timezone e) (label e) s))))
               (addWorldClock now (timezone e) (label e) s))))
   \<and> (toString now \<notin> id_wc ` set (worldClocks s) \<longrightarrow>
        worldClocks (removeWorldClock
               (id_wc (last (worldClocks (addWorldClock now tz lbl s))))
               (addWorldClock now tz lbl s)) = worldClocks s
        \<and> availableTimezones (removeWorldClock
               (id_wc (last (worldClocks (addWorldClock now tz lbl s))))
               (addWorldClock now tz lbl s)) = availableTimezones s)"
proof (intro conjI ballI impI)
  show "availableTimezones s =
     filter (\<lambda>tz. timezone tz \<notin> timezone ` set (worldClocks s)) popularTimezones"
    by (simp add: availableTimezones_def some_timezone)
next
  fix a wc assume "a \<in> set (availableTimezones s)" "wc \<in> set (worldClocks s)"
  then show "timezone wc \<noteq> timezone a"
    unfolding available_iff by (metis image_eqI)
next
  assume e: "e \<in> set (availableTimezones s)"
  show "e \<notin> set (availableTimezones (addWorldClock now (timezone e) (label e) s))"
    by (simp add: available_iff worldClocks_addWorldClock newClock_def)
next
  assume e: "e \<in> set (availableTimezones s)"
  have "set (filter (\<lambda>c. id_wc c \<noteq> toString now) (worldClocks s)) \<subseteq> set (worldClocks s)"
    by simp
  then have "timezone ` set (filter (\<lambda>c. id_wc c \<noteq> toString now) (worldClocks s))
      \<subseteq> timezone ` set (worldClocks s)"
    by (rule image_mono)
  with e show "e \<in> set (availableTimezones
          (removeWorldClock (id_wc (last (worldClocks (addWorldClock now (timezone e) (label e) s))))
             (addWorldClock now (timezone e) (label e) s)))"
    unfolding available_iff last_added
    by (simp only: newClock_def WorldClock.simps worldClocks_remove_add) blast
next
  assume fresh: "toString now \<notin> id_wc ` set (worldClocks s)"
  then have "filter (\<lambda>c. id_wc c \<noteq> toString now) (worldClocks s) = worldClocks s"
    by (intro filter_True) (metis image_eqI)
  then show restored: "worldClocks (removeWorldClock
               (id_wc (last (worldClocks (addWorldClock now tz lbl s))))
               (addWorldClock now tz lbl s)) = worldClocks s"
    unfolding last_added
    by (simp only: newClock_def WorldClock.simps worldClocks_remove_add)
  then show "availableTimezones (removeWorldClock
               (id_wc (last (worldClocks (addWorldClock now tz lbl s))))
               (addWorldClock now tz lbl s)) = availableTimezones s"
    by (rule availableTimezones_cong)
qed

theorem availableTimezones_complement_roundtrip_witness:
  "\<lparr>timezone = ''Europe/London'', label = ''London''\<rparr> \<in> set (availableTimezones initialState)
   \<and> \<lparr>timezone = ''Europe/London'', label = ''London''\<rparr> \<notin> set (availableTimezones
        (addWorldClock 1700000000000 ''Europe/London'' ''London'' initialState))
   \<and> \<lparr>timezone = ''Europe/London'', label = ''London''\<rparr> \<in> set (availableTimezones
        (removeWorldClock (toString 1700000000000)
          (addWorldClock 1700000000000 ''Europe/London'' ''London'' initialState)))
   \<and> toString 1700000000000 \<notin> id_wc ` set (worldClocks initialState)
   \<and> worldClocks (removeWorldClock (toString 1700000000000)
          (addWorldClock 1700000000000 ''Europe/London'' ''London'' initialState)) = []"
  using availableTimezones_complement_roundtrip
    [of initialState "\<lparr>timezone = ''Europe/London'', label = ''London''\<rparr>" 1700000000000
        "''Europe/London''" "''London''"]
  by (simp add: available_iff popularTimezones_def worldClocks_addWorldClock newClock_def
        initialState_def)

text \<open>
  Against claim C5 as stated, which speaks of every catalog entry: \<open>Europe/London\<close> is a
  catalog entry that the glow variant has registered from the start.  \<open>addWorldClock\<close>
  for it has no check and appends a second entry; removing that entry by its identifier
  leaves the first, so \<open>Europe/London\<close> is not in the available list afterwards.
\<close>

theorem roundtrip_registered_timezone_counterexample:
  "\<lparr>timezone = ''Europe/London'', label = ''London''\<rparr> \<in> set popularTimezones
   \<and> \<lparr>timezone = ''Europe/London'', label = ''London''\<rparr> \<notin> set (availableTimezones
      (removeWorldClock
        (id_wc (last (worldClocks
          (addWorldClock 1700000000000 ''Europe/London'' ''London''
              (initialState_v2 NoAnswer ''Europe/Paris'')))))
        (addWorldClock 1700000000000 ''Europe/London'' ''London''
            (initialState_v2 NoAnswer ''Europe/Paris''))))"
proof -
  have "toString 1700000000000 \<noteq> ''1''" and "toString 1700000000000 \<noteq> ''2''"
    using toString_inj [of 1700000000000 1] toString_inj [of 1700000000000 2]
    by (auto simp: toString_1 toString_2)
  then have "worldClocks (removeWorldClock (toString 1700000000000)
        (addWorldClock 1700000000000 ''Europe/London'' ''London''
            (initialState_v2 NoAnswer ''Europe/Paris'')))
      = worldClocks (initialState_v2 NoAnswer ''Europe/Paris'')"
    by (simp add: worldClocks_remove_add initialState_v2_def)
  then have "\<lparr>timezone = ''Europe/London'', label = ''London''\<rparr> \<notin> set (availableTimezones
      (removeWorldClock (toString 1700000000000)
        (addWorldClock 1700000000000 ''Europe/London'' ''London''
            (initialState_v2 NoAnswer ''Europe/Paris''))))"
    by (simp add: available_iff initialState_v2_def)
  moreover have "id_wc (last (worldClocks
          (addWorldClock 1700000000000 ''Europe/London'' ''London''
              (initialState_v2 NoAnswer ''Europe/Paris''))))
      = toString 1700000000000"
    by (simp add: last_added newClock_def)
  ultimately show ?thesis
    by (simp add: popularTimezones_def)
qed

text \<open>
  Claim C6.  \<open>removeWorldClock\<close> returns the state unchanged when no entry has the
  identifier; otherwise it returns a state and not an error, in which no entry has the
  identifier, every other entry is kept, and the entries kept are in the order they had
  (the new registry is a subsequence of the old one).
\<close>

theorem removeWorldClock_stable_filter:
  "(i \<notin> id_wc ` set (worldClocks s) \<longrightarrow> removeWorldClock i s = s)
   \<and> i \<notin> id_wc ` set (worldClocks (removeWorldClock i s))
   \<and> set (worldClocks (removeWorldClock i s)) = {c \<in> set (worldClocks s). id_wc c \<noteq> i}
   \<and> subseq (worldClocks (removeWorldClock i s)) (worldClocks s)"
proof (intro conjI impI)
  assume "i \<notin> id_wc ` set (worldClocks s)"
  then have "filter (\<lambda>c. id_wc c \<noteq> i) (worldClocks s) = worldClocks s"
    by (intro filter_True) auto
  then show "removeWorldClock i s = s"
    by (simp add: removeWorldClock_def)
qed (auto simp: removeWorldClock_def)

theorem removeWorldClock_stable_filter_witness:
  "''9'' \<notin> id_wc ` set (worldClocks (initialState_v2 NoAnswer ''Europe/Paris''))
   \<and> removeWorldClock ''9'' (initialState_v2 NoAnswer ''Europe/Paris'') =
       (initialState_v2 NoAnswer ''Europe/Paris'')
   \<and> worldClocks (removeWorldClock ''1'' (initialState_v2 NoAnswer ''Europe/Paris''))
       = [\<lparr>timezone = ''Asia/Tokyo'', label = ''Tokyo'', id_wc = ''2''\<rparr>]"
proof -
  have absent: "''9'' \<notin> id_wc ` set (worldClocks
      (initialState_v2 NoAnswer ''Europe/Paris''))"
    by (simp add: initialState_v2_def)
  with removeWorldClock_stable_filter [of "''9''" "initialState_v2 NoAnswer ''Europe/Paris''"]
  have "removeWorldClock ''9'' (initialState_v2 NoAnswer ''Europe/Paris'') =
      (initialState_v2 NoAnswer ''Europe/Paris'')"
    by blast
  moreover have "worldClocks (removeWorldClock ''1'' (initialState_v2 NoAnswer ''Europe/Paris''))
       = [\<lparr>timezone = ''Asia/Tokyo'', label = ''Tokyo'', id_wc = ''2''\<rparr>]"
    by (simp add: initialState_v2_def removeWorldClock_def)
  ultimately show ?thesis using absent by simp
qed

section \<open>The formatter\<close>

text \<open>
  Claim C2.  For every date and every identifier the host rejects, \<open>formatTimeForTimezone\<close>
  fails in both variants with the host's error for an invalid time zone (\<open>RangeError\<close>, the
  error the specification names \<open>InvalidTimezone\<close>): the call is passed on with the
  identifier as it is, no other zone is tried and no value is returned.
\<close>

theorem formatTimeForTimezone_rejected_zone_fails:
  "rejects toLocaleTimeString z \<Longrightarrow>
     formatTimeForTimezone toLocaleTimeString t z = Inl RangeError
     \<and> formatTimeForTimezone_v2 toLocaleTimeString t z = Inl RangeError"
  by (simp add: rejects_def formatTimeForTimezone_def formatTimeForTimezone_v2_def)

theorem formatTimeForTimezone_rejected_zone_fails_witness:
  "rejects (\<lambda>(t :: nat) opts. if timeZone opts \<in> timezone ` set popularTimezones
       then Inr ''12:00'' else Inl RangeError) ''Mars/Olympus_Mons''
   \<and> formatTimeForTimezone (\<lambda>(t :: nat) opts. if timeZone opts \<in> timezone ` set popularTimezones
       then Inr ''12:00'' else Inl RangeError) 0 ''Mars/Olympus_Mons'' = Inl RangeError
   \<and> formatTimeForTimezone_v2 (\<lambda>(t :: nat) opts. if timeZone opts \<in> timezone ` set popularTimezones
       then Inr ''12:00'' else Inl RangeError) 0 ''Mars/Olympus_Mons'' = Inl RangeError
   \<and> formatTimeForTimezone (\<lambda>(t :: nat) opts. if timeZone opts \<in> timezone ` set popularTimezones
       then Inr ''12:00'' else Inl RangeError) 0 ''Asia/Tokyo'' = Inr ''12:00''"
  using formatTimeForTimezone_rejected_zone_fails
    [of "\<lambda>(t :: nat) opts. if timeZone opts \<in> timezone ` set popularTimezones
       then Inr ''12:00'' else Inl RangeError" "''Mars/Olympus_Mons''" 0]
  by (simp add: rejects_def popularTimezones_def formatTimeForTimezone_def)

section \<open>The theme store\<close>

text \<open>
  Claim C3.  After \<open>applyPreset\<close>, every field of the theme is the preset's field of the
  same name, in both variants, whatever the state before was: the theme after the call
  is the same from any two earlier states.  (In the card variant a preset without
  \<open>background\<close> leaves the theme without \<open>background\<close>, too.)
\<close>

theorem applyPreset_replaces_whole_theme:
  "theme (applyPreset P s) =
     \<lparr>background = background P, cardBackground = cardBackground P, textColor = textColor P\<rparr>
   \<and> background (theme (applyPreset P s)) = background P
   \<and> cardBackground (theme (applyPreset P s)) = cardBackground P
   \<and> textColor (theme (applyPreset P s)) = textColor P
   \<and> theme (applyPreset P s) = theme (applyPreset P s')
   \<and> background_v2 (theme (applyPreset_v2 Q r)) = background_v2 Q
   \<and> clockText (theme (applyPreset_v2 Q r)) = clockText Q
   \<and> dateText (theme (applyPreset_v2 Q r)) = dateText Q
   \<and> accent (theme (applyPreset_v2 Q r)) = accent Q
   \<and> theme (applyPreset_v2 Q r) = theme (applyPreset_v2 Q r')"
  by (simp add: applyPreset_def applyPreset_v2_def)

theorem applyPreset_replaces_whole_theme_witness:
  "theme (applyPreset (presets ! 2)
      (handleColorChange Key_textColor ''#123456''
        (handleColorChange Key_background ''#ffffff'' initialState)))
     = \<lparr>background = None, cardBackground = ''#166534'', textColor = ''#bbf7d0''\<rparr>
   \<and> theme (applyPreset_v2 (presets_v2 ! 4)
      (handleColorChange_v2 Key_accent ''#123456'' (initialState_v2 NoAnswer ''Europe/Paris'')))
     = \<lparr>background_v2 = ''#000000'', clockText = ''#00ff00'', dateText = ''#008f00'',
        accent = ''#00ff00''\<rparr>"
  using applyPreset_replaces_whole_theme
    [of "presets ! 2" "handleColorChange Key_textColor ''#123456''
        (handleColorChange Key_background ''#ffffff'' initialState)" initialState
        "presets_v2 ! 4"
        "handleColorChange_v2 Key_accent ''#123456'' (initialState_v2 NoAnswer ''Europe/Paris'')"
        "initialState_v2 NoAnswer ''Europe/Paris''"]
  by (simp add: presets_def presets_v2_def applyPreset_def applyPreset_v2_def)

section \<open>The location lookup\<close>

lemma map_without: "count_list cs x = 0 \<Longrightarrow> map (\<lambda>c. if c = x then y else c) cs = cs"
  by (induction cs) (auto split: if_splits)

lemma replace_one_underscore:
  "count_list tz CHR ''_'' \<le> 1 \<Longrightarrow>
     replace ''_'' '' '' tz = map (\<lambda>c. if c = CHR ''_'' then CHR '' '' else c) tz"
proof (induction tz)
  case Nil
  then show ?case by simp
next
  case (Cons c cs)
  show ?case
  proof (cases "c = CHR ''_''")
    case True
    with Cons.prems have "count_list cs CHR ''_'' = 0" by simp
    then show ?thesis using True by (simp add: map_without)
  next
    case False
    with Cons show ?thesis by simp
  qed
qed

text \<open>
  Claim C8, as the code has it.  When \<open>navigator.geolocation\<close> is missing the displayed
  location is the fixed text \<open>Location not supported\<close>, not the time zone.  When the
  position request fails, or the reverse-geocoding request fails, the displayed location
  is the host's time zone name; for a name with at most one underscore, that is the name
  with every underscore replaced by a space.
\<close>

theorem fetchLocation_fallback:
  "locationName (fetchLocation NoGeolocation tz s) = ''Location not supported''
   \<and> (count_list tz CHR ''_'' \<le> 1 \<longrightarrow>
        locationName (fetchLocation PositionError tz s)
          = map (\<lambda>c. if c = CHR ''_'' then CHR '' '' else c) tz
        \<and> locationName (fetchLocation FetchFails tz s)
          = map (\<lambda>c. if c = CHR ''_'' then CHR '' '' else c) tz)"
  by (simp add: fetchLocation_def replace_one_underscore)

theorem fetchLocation_fallback_witness:
  "count_list ''America/New_York'' CHR ''_'' \<le> 1
   \<and> locationName (fetchLocation PositionError ''America/New_York''
       (initialState_v2 NoAnswer ''America/New_York''))
        = ''America/New York''
   \<and> locationName (fetchLocation FetchFails ''America/New_York''
       (initialState_v2 NoAnswer ''America/New_York''))
        = ''America/New York''"
  using fetchLocation_fallback
    [of "''America/New_York''" "initialState_v2 NoAnswer ''America/New_York''"]
  by simp

text \<open>
  Against claim C8 as stated: with geolocation unavailable and the host in
  \<open>America/New_York\<close>, the displayed location is not \<open>America/New York\<close>.
\<close>

theorem fetchLocation_unsupported_counterexample:
  "locationName (fetchLocation NoGeolocation ''America/New_York''
      (initialState_v2 NoAnswer ''America/New_York''))
     \<noteq> ''America/New York''
   \<and> locationName (fetchLocation NoGeolocation ''America/New_York''
       (initialState_v2 NoAnswer ''America/New_York''))
     = ''Location not supported''"
  by (simp add: fetchLocation_def)

text \<open>
  \<open>replace('_', ' ')\<close> stops after the first underscore: a time zone name with two of them
  keeps the second.
\<close>

lemma fetchLocation_second_underscore_kept:
  "locationName (fetchLocation PositionError ''America/North_Dakota/New_Salem'' s)
     = ''America/North Dakota/New_Salem''"
  by (simp add: fetchLocation_def)

section \<open>The visibility of the controls\<close>

lemma cleanup_clears:
  assumes "\<forall>t\<in>set (timers s). cleanup s = Some (setBy t)"
    and "\<forall>c\<in>set (listeners s). cleanup s = Some (fst c)"
  shows "timers (effectCleanup s) = []" and "listeners (effectCleanup s) = []"
    and "cleanup (effectCleanup s) = None"
proof -
  show "timers (effectCleanup s) = []"
  proof (cases "cleanup s")
    case None
    with assms(1) have "timers s = []" by (cases "timers s") auto
    with None show ?thesis by (simp add: effectCleanup_def)
  next
    case (Some r)
    with assms(1) have "\<forall>t\<in>set (timers s). setBy t = r" by auto
    then have "filter (\<lambda>t. setBy t \<noteq> r) (timers s) = []" by (simp add: filter_empty_conv)
    with Some show ?thesis by (simp add: effectCleanup_def clearTimeout_def)
  qed
  show "listeners (effectCleanup s) = []"
  proof (cases "cleanup s")
    case None
    with assms(2) have "listeners s = []" by (cases "listeners s") auto
    with None show ?thesis by (simp add: effectCleanup_def)
  next
    case (Some r)
    with assms(2) have "\<forall>c\<in>set (listeners s). fst c = r" by auto
    then have "filter (\<lambda>c. fst c \<noteq> r) (listeners s) = []" by (simp add: filter_empty_conv)
    with Some show ?thesis by (simp add: effectCleanup_def)
  qed
  show "cleanup (effectCleanup s) = None"
    by (simp add: effectCleanup_def split: option.splits)
qed

lemma effectCleanup_frame [simp]:
  "isFullscreen (effectCleanup s) = isFullscreen s"
  "isSettingsOpen (effectCleanup s) = isSettingsOpen s"
  "isAddingClock (effectCleanup s) = isAddingClock s"
  "effectRuns (effectCleanup s) = effectRuns s"
  "currentDeps (effectCleanup s) = currentDeps s"
  by (simp_all add: effectCleanup_def currentDeps_def split: option.splits)

lemma effectBody_fresh:
  assumes "timers s = []" and "listeners s = []" and "isFullscreen s"
  shows "timers (effectBody s) =
           [\<lparr>setBy = Suc (effectRuns s), msLeft = 3000, captured = currentDeps s\<rparr>]"
    and "listeners (effectBody s) = [(Suc (effectRuns s), currentDeps s)]"
    and "cleanup (effectBody s) = Some (Suc (effectRuns s))"
    and "effectRuns (effectBody s) = Suc (effectRuns s)"
    and "currentDeps (effectBody s) = currentDeps s"
  using assms by (simp_all add: effectBody_def handleMouseMove_def clearTimeout_def Let_def
      currentDeps_def)

lemma effectBody_normal:
  assumes "timers s = []" and "listeners s = []" and "\<not> isFullscreen s"
  shows "timers (effectBody s) = []" and "listeners (effectBody s) = []"
    and "cleanup (effectBody s) = None"
  using assms by (simp_all add: effectBody_def Let_def)

lemma visibilityEffect_fresh:
  assumes "\<forall>t\<in>set (timers s). cleanup s = Some (setBy t)"
    and "\<forall>c\<in>set (listeners s). cleanup s = Some (fst c)"
    and "isFullscreen s"
  shows "timers (visibilityEffect s) =
           [\<lparr>setBy = Suc (effectRuns s), msLeft = 3000, captured = currentDeps s\<rparr>]"
    and "listeners (visibilityEffect s) = [(Suc (effectRuns s), currentDeps s)]"
    and "cleanup (visibilityEffect s) = Some (Suc (effectRuns s))"
    and "effectRuns (visibilityEffect s) = Suc (effectRuns s)"
    and "currentDeps (visibilityEffect s) = currentDeps s"
  using effectBody_fresh [of "effectCleanup s"] cleanup_clears [OF assms(1,2)] assms(3)
  by (simp_all add: visibilityEffect_def)

lemma visibilityEffect_normal:
  assumes "\<forall>t\<in>set (timers s). cleanup s = Some (setBy t)"
    and "\<forall>c\<in>set (listeners s). cleanup s = Some (fst c)"
    and "\<not> isFullscreen s"
  shows "timers (visibilityEffect s) = []" and "listeners (visibilityEffect s) = []"
  using effectBody_normal [of "effectCleanup s"] cleanup_clears [OF assms(1,2)] assms(3)
  by (simp_all add: visibilityEffect_def)

lemma inv_visibilityEffect:
  assumes "\<forall>t\<in>set (timers s). cleanup s = Some (setBy t)"
    and "\<forall>c\<in>set (listeners s). cleanup s = Some (fst c)"
  shows "effectInvariant (visibilityEffect s)"
proof (cases "isFullscreen s")
  case True
  from visibilityEffect_fresh [OF assms True] show ?thesis
    by (simp add: effectInvariant_def)
next
  case False
  from visibilityEffect_normal [OF assms False] show ?thesis
    by (simp add: effectInvariant_def)
qed

lemma inv_owned:
  assumes "effectInvariant s"
  shows "\<forall>t\<in>set (timers s). cleanup s = Some (setBy t)"
    and "\<forall>c\<in>set (listeners s). cleanup s = Some (fst c)"
  using assms by (simp_all add: effectInvariant_def)

lemma inv_setIsFullscreen: "effectInvariant s \<Longrightarrow> effectInvariant (setIsFullscreen b s)"
  using inv_owned [of s] inv_visibilityEffect [of "s\<lparr>isFullscreen := b\<rparr>"]
  by (simp add: setIsFullscreen_def)

lemma inv_setIsSettingsOpen: "effectInvariant s \<Longrightarrow> effectInvariant (setIsSettingsOpen b s)"
  using inv_owned [of s] inv_visibilityEffect [of "s\<lparr>isSettingsOpen := b\<rparr>"]
  by (simp add: setIsSettingsOpen_def)

lemma inv_setIsAddingClock: "effectInvariant s \<Longrightarrow> effectInvariant (setIsAddingClock b s)"
  using inv_owned [of s] inv_visibilityEffect [of "s\<lparr>isAddingClock := b\<rparr>"]
  by (simp add: setIsAddingClock_def)

lemmas inv_setters = inv_setIsFullscreen inv_setIsSettingsOpen inv_setIsAddingClock

lemma inv_frame:
  "effectInvariant (s\<lparr>worldClocks := w\<rparr>) = effectInvariant s"
  "effectInvariant (s\<lparr>theme := th\<rparr>) = effectInvariant s"
  "effectInvariant (s\<lparr>locationName := l\<rparr>) = effectInvariant s"
  "effectInvariant (s\<lparr>fullscreenElement := fe\<rparr>) = effectInvariant s"
  "effectInvariant (s\<lparr>console := c\<rparr>) = effectInvariant s"
  by (simp_all add: effectInvariant_def currentDeps_def)

lemma inv_handleMouseMove:
  assumes "effectInvariant s" and "c \<in> set (listeners s)"
  shows "effectInvariant (handleMouseMove c s)"
proof -
  obtain r d where c: "c = (r, d)" by (cases c)
  from assms c have r: "cleanup s = Some r" and d: "d = currentDeps s"
    by (auto simp: effectInvariant_def)
  have "timers (handleMouseMove c s) =
          clearTimeout r (timers s) @ [\<lparr>setBy = r, msLeft = 3000, captured = d\<rparr>]"
    by (simp add: handleMouseMove_def c)
  moreover have "set (clearTimeout r (timers s)) \<subseteq> set (timers s)"
    by (auto simp: clearTimeout_def)
  ultimately show ?thesis
    using assms(1) r d by (auto simp: effectInvariant_def currentDeps_def)
qed

lemma inv_fold_handleMouseMove:
  "effectInvariant s \<Longrightarrow> set cs \<subseteq> set (listeners s) \<Longrightarrow>
     effectInvariant (fold handleMouseMove cs s)"
proof (induction cs arbitrary: s)
  case Nil
  then show ?case by simp
next
  case (Cons c cs)
  then have "effectInvariant (handleMouseMove c s)"
    by (intro inv_handleMouseMove) auto
  moreover have "set cs \<subseteq> set (listeners (handleMouseMove c s))"
    using Cons.prems(2) by simp
  ultimately show ?case using Cons.IH by simp
qed

lemma inv_mouseMove: "effectInvariant s \<Longrightarrow> effectInvariant (mouseMove s)"
  by (simp add: mouseMove_def inv_fold_handleMouseMove)

lemma inv_timerCallback:
  "effectInvariant s \<Longrightarrow> d = currentDeps s \<Longrightarrow> effectInvariant (timerCallback d s)"
  by (auto simp: effectInvariant_def timerCallback_def currentDeps_def)

lemma inv_fold_timerCallback:
  "effectInvariant s \<Longrightarrow> \<forall>d\<in>set ds. d = currentDeps s \<Longrightarrow>
     effectInvariant (fold timerCallback ds s)"
proof (induction ds arbitrary: s)
  case Nil
  then show ?case by simp
next
  case (Cons d ds)
  then have "effectInvariant (timerCallback d s)"
    by (intro inv_timerCallback) auto
  moreover have "currentDeps (timerCallback d s) = currentDeps s"
    by (simp add: currentDeps_def)
  ultimately show ?case using Cons.IH [of "timerCallback d s"] Cons.prems(2) by simp
qed

lemma inv_elapse: "effectInvariant s \<Longrightarrow> effectInvariant (elapse ms s)"
proof -
  assume inv: "effectInvariant s"
  let ?pending = "map (\<lambda>t. t\<lparr>msLeft := msLeft t - ms\<rparr>) (filter (\<lambda>t. ms < msLeft t) (timers s))"
  have "effectInvariant (s\<lparr>timers := ?pending\<rparr>)"
    using inv by (auto simp: effectInvariant_def currentDeps_def)
  moreover have "\<forall>d\<in>set (map captured (sort_key msLeft (filter (\<lambda>t. msLeft t \<le> ms) (timers s)))).
      d = currentDeps (s\<lparr>timers := ?pending\<rparr>)"
    using inv by (auto simp: effectInvariant_def currentDeps_def)
  ultimately show ?thesis
    unfolding elapse_def Let_def by (rule inv_fold_timerCallback)
qed

lemma inv_fetchLocation: "effectInvariant s \<Longrightarrow> effectInvariant (fetchLocation h tz s)"
  by (cases h) (simp_all add: fetchLocation_def Let_def inv_frame)

lemma inv_toggleFullscreen: "effectInvariant s \<Longrightarrow> effectInvariant (toggleFullscreen g s)"
  by (simp add: toggleFullscreen_def inv_frame)

lemma inv_addWorldClock: "effectInvariant s \<Longrightarrow> effectInvariant (addWorldClock now tz lbl s)"
  by (simp add: addWorldClock_def inv_setters inv_frame)

lemma inv_step: "effectInvariant s \<Longrightarrow> effectInvariant (step e s)"
proof (cases e)
  case MouseMove
  assume "effectInvariant s" then show ?thesis by (simp add: MouseMove inv_mouseMove)
next
  case (Elapse ms)
  assume "effectInvariant s" then show ?thesis by (simp add: Elapse inv_elapse)
next
  case FullscreenChange
  assume "effectInvariant s" then show ?thesis
    by (simp add: FullscreenChange handleFullscreenChange_def inv_setters)
next
  case (HostSetsFullscreen b)
  assume "effectInvariant s" then show ?thesis
    by (simp add: HostSetsFullscreen hostSetsFullscreen_def inv_frame)
next
  case (ToggleFullscreen g)
  assume "effectInvariant s" then show ?thesis
    by (simp add: ToggleFullscreen inv_toggleFullscreen)
next
  case (SetIsSettingsOpen b)
  assume "effectInvariant s" then show ?thesis by (simp add: SetIsSettingsOpen inv_setters)
next
  case (SetIsAddingClock b)
  assume "effectInvariant s" then show ?thesis by (simp add: SetIsAddingClock inv_setters)
next
  case (AddWorldClock now tz lbl)
  assume "effectInvariant s" then show ?thesis by (simp add: AddWorldClock inv_addWorldClock)
next
  case (RemoveWorldClock i)
  assume "effectInvariant s" then show ?thesis
    by (simp add: RemoveWorldClock removeWorldClock_def inv_frame)
next
  case (SetTheme f)
  assume "effectInvariant s" then show ?thesis by (simp add: SetTheme inv_frame)
next
  case (FetchLocation h tz)
  assume "effectInvariant s" then show ?thesis by (simp add: FetchLocation inv_fetchLocation)
qed

lemma inv_run: "effectInvariant s \<Longrightarrow> effectInvariant (run s evs)"
  by (induction evs arbitrary: s) (simp_all add: inv_step)

lemma effectBody_shows: "showControls (effectBody s)"
  by (simp add: effectBody_def Let_def)

lemma inv_effectBody:
  assumes "timers s = []" and "listeners s = []"
  shows "effectInvariant (effectBody s)"
proof (cases "isFullscreen s")
  case True
  from effectBody_fresh [OF assms True] show ?thesis
    by (simp add: effectInvariant_def effectBody_shows)
next
  case False
  from effectBody_normal [OF assms False] show ?thesis
    by (simp add: effectInvariant_def effectBody_shows)
qed

lemma inv_initialState: "effectInvariant initialState"
  unfolding initialState_def by (rule inv_effectBody) (simp_all add: initialCells_def)

lemma inv_initialState_v2: "effectInvariant (initialState_v2 h tz)"
  unfolding initialState_v2_def
  by (rule inv_effectBody)
     (simp_all add: initialCells_def fetchLocation_def Let_def split: lookup.splits)

lemma modal_visible:
  "effectInvariant s \<Longrightarrow> isSettingsOpen s \<or> isAddingClock s \<Longrightarrow> showControls s"
  by (auto simp: effectInvariant_def)

lemma elapse_single:
  assumes "timers s = [\<lparr>setBy = r, msLeft = 3000, captured = (f, so, ac)\<rparr>]"
    and "showControls s"
  shows "showControls (elapse ms s) = (ms < 3000 \<or> \<not> f \<or> so \<or> ac)"
  using assms by (auto simp: elapse_def Let_def timerCallback_def)

lemma freshCycle_visibilityEffect:
  assumes "\<forall>t\<in>set (timers s). cleanup s = Some (setBy t)"
    and "\<forall>c\<in>set (listeners s). cleanup s = Some (fst c)"
    and "isFullscreen s"
  shows "freshCycle (visibilityEffect s) ms"
proof -
  note fresh = visibilityEffect_fresh [OF assms]
  have "timers (visibilityEffect s) =
      [\<lparr>setBy = Suc (effectRuns s), msLeft = 3000,
        captured = (isFullscreen s, isSettingsOpen s, isAddingClock s)\<rparr>]"
    using fresh(1) by (simp add: currentDeps_def)
  then have "showControls (elapse ms (visibilityEffect s)) =
      (ms < 3000 \<or> \<not> isFullscreen s \<or> isSettingsOpen s \<or> isAddingClock s)"
    by (rule elapse_single) simp
  with fresh assms(3) show ?thesis
    by (simp add: freshCycle_def)
qed

lemma inv_restartsIdleCycle:
  assumes "effectInvariant s"
  shows "restartsIdleCycle s now tz lbl ms"
proof -
  note owned = inv_owned [OF assms]
  have a: "isFullscreen s \<Longrightarrow> isSettingsOpen s \<Longrightarrow> freshCycle (setIsSettingsOpen False s) ms"
    using owned freshCycle_visibilityEffect [of "s\<lparr>isSettingsOpen := False\<rparr>" ms]
    by (simp add: setIsSettingsOpen_def)
  have b: "isFullscreen s \<Longrightarrow> isAddingClock s \<Longrightarrow> freshCycle (setIsAddingClock False s) ms"
    using owned freshCycle_visibilityEffect [of "s\<lparr>isAddingClock := False\<rparr>" ms]
    by (simp add: setIsAddingClock_def)
  have c: "isFullscreen s \<Longrightarrow> isAddingClock s \<Longrightarrow> freshCycle (addWorldClock now tz lbl s) ms"
    using owned
      freshCycle_visibilityEffect
        [of "s\<lparr>worldClocks := appendClock now tz lbl (worldClocks s), isAddingClock := False\<rparr>" ms]
    by (simp add: addWorldClock_def setIsAddingClock_def)
  have d: "\<not> isFullscreen s \<Longrightarrow> fullscreenElement s \<Longrightarrow> freshCycle (handleFullscreenChange s) ms"
    using owned freshCycle_visibilityEffect [of "s\<lparr>isFullscreen := True\<rparr>" ms]
    by (simp add: handleFullscreenChange_def setIsFullscreen_def)
  from a b c d show ?thesis
    by (simp add: restartsIdleCycle_def)
qed

text \<open>
  Claim C7.  In every state that a run of either variant reaches, the controls are
  visible while the settings modal or the add-clock modal is open: no timer that fires
  while a modal is open hides them, however much time passes and wherever the modal was
  opened.
\<close>

theorem modal_open_keeps_controls_visible:
  "(isSettingsOpen (run initialState evs) \<or> isAddingClock (run initialState evs) \<longrightarrow>
      showControls (run initialState evs))
   \<and> (isSettingsOpen (run (initialState_v2 host tz) evs2)
        \<or> isAddingClock (run (initialState_v2 host tz) evs2) \<longrightarrow>
      showControls (run (initialState_v2 host tz) evs2))"
proof -
  have "effectInvariant (run initialState evs)"
    by (simp add: inv_run inv_initialState)
  moreover have "effectInvariant (run (initialState_v2 host tz) evs2)"
    by (simp add: inv_run inv_initialState_v2)
  ultimately show ?thesis
    by (simp add: modal_visible)
qed

theorem modal_open_keeps_controls_visible_witness:
  "isFullscreen (run initialState
      [ToggleFullscreen True, FullscreenChange, SetIsSettingsOpen True, Elapse 3000])
   \<and> isSettingsOpen (run initialState
      [ToggleFullscreen True, FullscreenChange, SetIsSettingsOpen True, Elapse 3000])
   \<and> showControls (run initialState
      [ToggleFullscreen True, FullscreenChange, SetIsSettingsOpen True, Elapse 3000])
   \<and> isFullscreen (run (initialState_v2 NoAnswer ''Europe/Paris'')
      [ToggleFullscreen True, FullscreenChange, Elapse 3000, SetIsAddingClock True, Elapse 3000])
   \<and> isAddingClock (run (initialState_v2 NoAnswer ''Europe/Paris'')
      [ToggleFullscreen True, FullscreenChange, Elapse 3000, SetIsAddingClock True, Elapse 3000])
   \<and> showControls (run (initialState_v2 NoAnswer ''Europe/Paris'')
      [ToggleFullscreen True, FullscreenChange, Elapse 3000, SetIsAddingClock True, Elapse 3000])"
  using modal_open_keeps_controls_visible
    [of "[ToggleFullscreen True, FullscreenChange, SetIsSettingsOpen True, Elapse 3000]"
        NoAnswer "''Europe/Paris''"
        "[ToggleFullscreen True, FullscreenChange, Elapse 3000, SetIsAddingClock True,
          Elapse 3000]"]
  by (simp add: run_defs)

text \<open>
  Claim C9.  \<open>toggleFullscreen\<close> leaves \<open>isFullscreen\<close>, \<open>showControls\<close>, the pending timers
  and the listeners as they are, whether the host grants the request or not; a request
  the host declines changes nothing but the log.  No event other than the host's
  \<open>fullscreenchange\<close> signal changes \<open>isFullscreen\<close>, and that signal sets it to what the
  host reports.
\<close>

theorem toggleFullscreen_leaves_visibility:
  "isFullscreen (toggleFullscreen granted s) = isFullscreen s
   \<and> showControls (toggleFullscreen granted s) = showControls s
   \<and> timers (toggleFullscreen granted s) = timers s
   \<and> listeners (toggleFullscreen granted s) = listeners s
   \<and> toggleFullscreen False s = s\<lparr>console := console s @ [''Fullscreen error:'']\<rparr>
   \<and> (e \<noteq> FullscreenChange \<longrightarrow> isFullscreen (step e s) = isFullscreen s)
   \<and> isFullscreen (step FullscreenChange s) = fullscreenElement s"
  by (simp add: isFullscreen_step isFullscreen_signal) (simp add: toggleFullscreen_def)

theorem toggleFullscreen_leaves_visibility_witness:
  "(MouseMove :: Theme event) \<noteq> FullscreenChange
   \<and> isFullscreen (step MouseMove (toggleFullscreen True initialState))
       = isFullscreen (toggleFullscreen True initialState)
   \<and> \<not> isFullscreen (toggleFullscreen True initialState)
   \<and> fullscreenElement (toggleFullscreen True initialState)
   \<and> isFullscreen (step FullscreenChange (toggleFullscreen True initialState))"
  using toggleFullscreen_leaves_visibility [of True initialState MouseMove]
    toggleFullscreen_leaves_visibility [of True "toggleFullscreen True initialState" MouseMove]
  by (simp add: run_defs)

text \<open>
  Claim C10, as the code has it.  In every state that a run of either variant reaches:
  in fullscreen, closing the settings modal and closing the add-clock modal (by its
  close button or by \<open>addWorldClock\<close>), and out of fullscreen the host's signal that
  fullscreen was entered, each start a fresh cycle.  The timer and the listener of the
  cycle before are cancelled, the controls are shown at once, and one new timer of
  3000 ms is pending.  With no other event, the controls are then hidden exactly from
  3000 ms on when no modal is open after the close, and stay visible when the other
  modal is still open.
\<close>

theorem modal_close_restarts_idle_cycle:
  "restartsIdleCycle (run initialState evs) now tz lbl ms
   \<and> restartsIdleCycle (run (initialState_v2 host z) evs2) now tz lbl ms"
  by (simp add: inv_restartsIdleCycle inv_run inv_initialState inv_initialState_v2)

text \<open>
  Against claim C10 as stated: in fullscreen with both modals open, the settings modal
  closes, and the controls are visible 3000 ms later and ten minutes later.
\<close>

theorem close_with_other_modal_open_counterexample:
  "isFullscreen (run initialState
      [ToggleFullscreen True, FullscreenChange, SetIsSettingsOpen True, SetIsAddingClock True])
   \<and> isSettingsOpen (run initialState
      [ToggleFullscreen True, FullscreenChange, SetIsSettingsOpen True, SetIsAddingClock True])
   \<and> showControls (run initialState
      [ToggleFullscreen True, FullscreenChange, SetIsSettingsOpen True, SetIsAddingClock True,
       SetIsSettingsOpen False, Elapse 3000])
   \<and> showControls (run initialState
      [ToggleFullscreen True, FullscreenChange, SetIsSettingsOpen True, SetIsAddingClock True,
       SetIsSettingsOpen False, Elapse 3000, Elapse 600000])"
  by (simp add: run_defs)

theorem modal_close_restarts_idle_cycle_witness:
  "isFullscreen (run initialState
      [ToggleFullscreen True, FullscreenChange, Elapse 1000, SetIsSettingsOpen True, Elapse 5000])
   \<and> isSettingsOpen (run initialState
      [ToggleFullscreen True, FullscreenChange, Elapse 1000, SetIsSettingsOpen True, Elapse 5000])
   \<and> timers (run initialState
      [ToggleFullscreen True, FullscreenChange, Elapse 1000, SetIsSettingsOpen True, Elapse 5000,
       SetIsSettingsOpen False])
      = [\<lparr>setBy = 4, msLeft = 3000, captured = (True, False, False)\<rparr>]
   \<and> showControls (run initialState
      [ToggleFullscreen True, FullscreenChange, Elapse 1000, SetIsSettingsOpen True, Elapse 5000,
       SetIsSettingsOpen False, Elapse 2999])
   \<and> \<not> showControls (run initialState
      [ToggleFullscreen True, FullscreenChange, Elapse 1000, SetIsSettingsOpen True, Elapse 5000,
       SetIsSettingsOpen False, Elapse 3000])
   \<and> isFullscreen (run initialState
      [ToggleFullscreen True, FullscreenChange, SetIsAddingClock True])
   \<and> isAddingClock (run initialState
      [ToggleFullscreen True, FullscreenChange, SetIsAddingClock True])
   \<and> \<not> showControls (run initialState
      [ToggleFullscreen True, FullscreenChange, SetIsAddingClock True,
       AddWorldClock 1700000000000 ''Asia/Tokyo'' ''Tokyo'', Elapse 3000])
   \<and> \<not> showControls (run initialState
      [ToggleFullscreen True, FullscreenChange, SetIsAddingClock True,
       SetIsAddingClock False, Elapse 3000])
   \<and> \<not> isFullscreen (run initialState [ToggleFullscreen True])
   \<and> fullscreenElement (run initialState [ToggleFullscreen True])
   \<and> showControls (run initialState [ToggleFullscreen True, FullscreenChange, Elapse 2999])
   \<and> \<not> showControls (run initialState [ToggleFullscreen True, FullscreenChange, Elapse 3000])"
  using modal_close_restarts_idle_cycle [of "[ToggleFullscreen True, FullscreenChange, Elapse 1000,
        SetIsSettingsOpen True, Elapse 5000]" 0 "[]" "[]" 2999 NoAnswer "[]" "[]"]
    modal_close_restarts_idle_cycle [of "[ToggleFullscreen True, FullscreenChange, Elapse 1000,
        SetIsSettingsOpen True, Elapse 5000]" 0 "[]" "[]" 3000 NoAnswer "[]" "[]"]
    modal_close_restarts_idle_cycle [of "[ToggleFullscreen True, FullscreenChange, SetIsAddingClock True]"
        1700000000000 "''Asia/Tokyo''" "''Tokyo''" 3000 NoAnswer "[]" "[]"]
    modal_close_restarts_idle_cycle [of "[ToggleFullscreen True]" 0 "[]" "[]" 3000 NoAnswer "[]" "[]"]
  by (simp add: run_defs restartsIdleCycle_def freshCycle_def addWorldClock_def)

end
